theory Spec2Isabelle
  imports Main "HOL-Library.AList" "HOL-Library.Sublist"
begin

section \<open>Data model\<close>

text \<open>
  Errors are values. \<open>TypeError\<close> is the JavaScript exception raised by a property
  access or a call on \<open>undefined\<close>; \<open>UnresolvedDialogId\<close> is the error kind (a) of
  the specification (a frame whose identifier is absent from its registry);
  \<open>ValidatorException\<close> is whatever an injected validator or recognizer throws.
\<close>

datatype error = TypeError | UnresolvedDialogId string | ValidatorException string

text \<open>The enumerations imported from \<^verbatim>\<open>./dialog\<close>.\<close>

datatype DialogReason =
  beginCalled | continueCalled | endCalled | replaceCalled | cancelCalled | nextCalled

datatype DialogTurnStatus = Empty | Waiting | Complete | Cancelled

datatype DialogConsultationDesire = canProcess | shouldProcess

text \<open>
  An activity (or a \<^verbatim>\<open>Partial<Activity>\<close>): every field may be absent. What a prompt
  sends is \<^verbatim>\<open>string | Partial<Activity>\<close>.
\<close>

record Activity =
  activity_type :: "string option"
  activity_text :: "string option"
  inputHint :: "string option"

datatype activity_or_text = Text string | Act Activity

record PromptOptions =
  prompt :: "activity_or_text option"
  retryPrompt :: "activity_or_text option"

definition ActivityTypes_Message :: string where
  "ActivityTypes_Message = ''message''"

definition InputHints_ExpectingInput :: string where
  "InputHints_ExpectingInput = ''expectingInput''"

definition PERSISTED_OPTIONS :: string where
  "PERSISTED_OPTIONS = ''options''"

definition PERSISTED_STATE :: string where
  "PERSISTED_STATE = ''state''"

definition PERSISTED_DIALOG_STATE :: string where
  "PERSISTED_DIALOG_STATE = ''dialogs''"

text \<open>
  A frame of a dialog stack (\<^verbatim>\<open>DialogInstance\<close>): the dialog identifier and the
  frame's private state, an object read and written by key. The values the two
  classes store there are prompt options, a plain object (the recognition state, \<open>{}\<close>
  is \<open>VObject []\<close>) and a \<^verbatim>\<open>DialogState\<close>, whose \<^verbatim>\<open>dialogStack\<close> is a list of frames
  when it is an array (\<open>None\<close> when \<^verbatim>\<open>Array.isArray\<close> fails). A stack lists its frames
  bottom first: the top of the stack is the last element.
\<close>

datatype DialogInstance =
  DialogInstance (instance_id: string) (instance_state: "(string \<times> jvalue) list")
and jvalue =
    VOptions PromptOptions
  | VObject "(string \<times> string) list"
  | VDialogState (dialogStack: "DialogInstance list option")

text \<open>The result values a dialog can hand back (\<^verbatim>\<open>any\<close> in the source).\<close>

datatype any = AUndefined | AString string | AActivity Activity

record DialogTurnResult =
  status :: DialogTurnStatus
  result :: any

text \<open>\<^verbatim>\<open>Dialog.EndOfTurn\<close>: the waiting outcome.\<close>

definition EndOfTurn :: DialogTurnResult where
  "EndOfTurn = \<lparr>status = Waiting, result = AUndefined\<rparr>"

text \<open>
  What the source reads and writes of a \<^verbatim>\<open>TurnContext\<close>: the inbound activity, the
  \<^verbatim>\<open>responded\<close> flag and the outputs sent this turn. The field \<open>trace\<close> is a log
  of the lifecycle calls made during the turn, kept so that their order can be stated.
\<close>

datatype event =
    EndDialogCalled string DialogReason
  | OnEndDialog string DialogReason
  | OnRepromptDialog string

record TurnContext =
  activity :: Activity
  responded :: bool
  sent :: "(activity_or_text \<times> string) list"
  trace :: "event list"

record PromptRecognizerResult =
  succeeded :: bool
  recognized_value :: Activity
  allowInterruption :: bool

record PromptValidatorContext =
  pv_context :: TurnContext
  pv_recognized :: PromptRecognizerResult
  pv_state :: "jvalue option"
  pv_options :: "jvalue option"

text \<open>
  The dialogs of a registry. An \<^verbatim>\<open>ActivityPrompt\<close> carries its injected validator
  (optional in the constructor; it may send output, so it returns the context too) and
  its recognition step \<^verbatim>\<open>onRecognize\<close>, which subclasses override. A
  \<^verbatim>\<open>ComponentDialog\<close> carries \<^verbatim>\<open>initialDialogId\<close> and its private registry.
\<close>

datatype Dialog =
    ActivityPrompt
      (dialog_id: string)
      (validator: "(PromptValidatorContext \<Rightarrow> error + bool \<times> TurnContext) option")
      (onRecognize: "TurnContext \<Rightarrow> jvalue option \<Rightarrow> jvalue option \<Rightarrow> error + PromptRecognizerResult")
  | ComponentDialog
      (dialog_id: string)
      (initialDialogId: "string option")
      (dialogs: "(string \<times> Dialog) list")

record DialogContext =
  dc_dialogs :: "(string \<times> Dialog) list"
  dc_context :: TurnContext
  stack :: "DialogInstance list"
  userState :: "(string \<times> string) list"
  conversationState :: "(string \<times> string) list"

section \<open>Collaborators\<close>

text \<open>
  Modelled from the spec: the State Scope of section 4.1 (\<^verbatim>\<open>StateMap\<close>, not among the
  sources). \<open>get\<close> returns the stored value or \<open>undefined\<close> (\<open>None\<close>), \<open>set\<close>
  replaces or adds the binding and touches nothing else.
\<close>

definition StateMap_get :: "(string \<times> 'v) list \<Rightarrow> string \<Rightarrow> 'v option" where
  "StateMap_get m k = map_of m k"

text \<open>Modelled from the spec: \<open>set\<close> of the same State Scope.\<close>

definition StateMap_set :: "(string \<times> 'v) list \<Rightarrow> string \<Rightarrow> 'v \<Rightarrow> (string \<times> 'v) list" where
  "StateMap_set m k v = AList.update k v m"

text \<open>
  Modelled from the spec: the output contract of section 6 (\<^verbatim>\<open>TurnContext.sendActivity\<close>,
  not among the sources): the content and its input hint are delivered, and the turn
  counts as responded to.
\<close>

definition sendActivity :: "TurnContext \<Rightarrow> activity_or_text \<Rightarrow> string \<Rightarrow> TurnContext" where
  "sendActivity ctx content hint = ctx\<lparr>responded := True, sent := sent ctx @ [(content, hint)]\<rparr>"

text \<open>
  Modelled from the spec: the top frame of a context's stack (\<^verbatim>\<open>dc.activeDialog\<close>,
  \<open>undefined\<close> on an empty stack) and the replacement of that frame, which stands for
  the in-place mutation of the frame object.
\<close>

definition activeDialog :: "DialogContext \<Rightarrow> DialogInstance option" where
  "activeDialog dc = (if stack dc = [] then None else Some (last (stack dc)))"

text \<open>Modelled from the spec: the frame of a stack is mutated in place; here the top
  frame is replaced by its new value.\<close>

definition set_activeDialog :: "DialogContext \<Rightarrow> DialogInstance \<Rightarrow> DialogContext" where
  "set_activeDialog dc inst = dc\<lparr>stack := butlast (stack dc) @ [inst]\<rparr>"

text \<open>Appending to the log of lifecycle calls.\<close>

definition log_event :: "TurnContext \<Rightarrow> event \<Rightarrow> TurnContext" where
  "log_event ctx e = ctx\<lparr>trace := trace ctx @ [e]\<rparr>"

text \<open>JavaScript truthiness of an optional \<^verbatim>\<open>string | Partial<Activity>\<close>.\<close>

fun truthy :: "activity_or_text option \<Rightarrow> bool" where
  "truthy None = False"
| "truthy (Some (Text s)) = (s \<noteq> [])"
| "truthy (Some (Act a)) = True"

section \<open>ActivityPrompt\<close>

text \<open>\<^verbatim>\<open>ActivityPrompt.onPrompt\<close>; \<^verbatim>\<open>options\<close> is what the state map returned.\<close>

definition onPrompt :: "TurnContext \<Rightarrow> jvalue option \<Rightarrow> jvalue option \<Rightarrow> bool \<Rightarrow> error + TurnContext" where
  "onPrompt ctx st options isRetry =
     (case options of
        Some (VOptions opt) \<Rightarrow>
          if isRetry \<and> truthy (retryPrompt opt)
          then Inr (sendActivity ctx (the (retryPrompt opt)) InputHints_ExpectingInput)
          else if truthy (prompt opt)
          then Inr (sendActivity ctx (the (prompt opt)) InputHints_ExpectingInput)
          else Inr ctx
      | _ \<Rightarrow> Inl TypeError)"

text \<open>The base \<^verbatim>\<open>ActivityPrompt.onRecognize\<close>.\<close>

definition ActivityPrompt_onRecognize ::
  "TurnContext \<Rightarrow> jvalue option \<Rightarrow> jvalue option \<Rightarrow> error + PromptRecognizerResult" where
  "ActivityPrompt_onRecognize ctx st options =
     Inr \<lparr>succeeded = True, recognized_value = activity ctx, allowInterruption = True\<rparr>"

text \<open>\<^verbatim>\<open>ActivityPrompt.repromptDialog\<close>.\<close>

definition ActivityPrompt_repromptDialog :: "TurnContext \<Rightarrow> DialogInstance \<Rightarrow> error + TurnContext" where
  "ActivityPrompt_repromptDialog ctx inst =
     onPrompt ctx (StateMap_get (instance_state inst) PERSISTED_STATE)
       (StateMap_get (instance_state inst) PERSISTED_OPTIONS) True"

text \<open>\<^verbatim>\<open>ActivityPrompt.onDialogEvent\<close>. The prompt's recognition step is \<open>r\<close>.
  Events other than \<^verbatim>\<open>consultDialog\<close> go to the base class, which is not among the sources;
  its answer is the parameter \<open>super\<close>.\<close>

definition ActivityPrompt_onDialogEvent ::
  "bool \<Rightarrow> (TurnContext \<Rightarrow> jvalue option \<Rightarrow> jvalue option \<Rightarrow> error + PromptRecognizerResult) \<Rightarrow>
   DialogContext \<Rightarrow> string \<Rightarrow> error + bool" where
  "ActivityPrompt_onDialogEvent super r dc event_name =
     (if event_name = ''consultDialog'' then
        (case activeDialog dc of
           None \<Rightarrow> Inl TypeError
         | Some inst \<Rightarrow>
             (case r (dc_context dc)
                     (StateMap_get (instance_state inst) PERSISTED_STATE)
                     (StateMap_get (instance_state inst) PERSISTED_OPTIONS) of
                Inl e \<Rightarrow> Inl e
              | Inr recognized \<Rightarrow> Inr (succeeded recognized \<and> \<not> allowInterruption recognized)))
      else Inr super)"

section \<open>ComponentDialog and the dialog context\<close>

text \<open>
  Writing a stack back into a frame: in the source the inner context's stack is the
  array stored in the frame's state, so every change of the one is a change of the other.
\<close>

definition put_dialogStack :: "DialogInstance \<Rightarrow> DialogInstance list \<Rightarrow> DialogInstance" where
  "put_dialogStack inst stk =
     DialogInstance (instance_id inst)
       (StateMap_set (instance_state inst) PERSISTED_DIALOG_STATE (VDialogState (Some stk)))"

text \<open>
  \<^verbatim>\<open>ComponentDialog.createInnerDC\<close>, for the component whose registry is \<open>ds\<close>. Reading
  \<^verbatim>\<open>dialogStack\<close> of an absent state is a TypeError; a state whose \<^verbatim>\<open>dialogStack\<close> is
  not an array receives the empty array (an object of another shape has no such array
  either). The frame is returned as the call leaves it.
\<close>

definition createInnerDC ::
  "(string \<times> Dialog) list \<Rightarrow> TurnContext \<Rightarrow> DialogInstance \<Rightarrow> (string \<times> string) list option \<Rightarrow>
   (string \<times> string) list option \<Rightarrow> error + DialogContext \<times> DialogInstance" where
  "createInnerDC ds ctx inst us cs =
     (case StateMap_get (instance_state inst) PERSISTED_DIALOG_STATE of
        None \<Rightarrow> Inl TypeError
      | Some st \<Rightarrow>
          (let stk = (case st of VDialogState (Some frames) \<Rightarrow> frames | _ \<Rightarrow> [])
           in Inr (\<lparr>dc_dialogs = ds, dc_context = ctx, stack = stk,
                    userState = (case us of None \<Rightarrow> [] | Some u \<Rightarrow> u),
                    conversationState = (case cs of None \<Rightarrow> [] | Some c \<Rightarrow> c)\<rparr>,
                   put_dialogStack inst stk)))"

text \<open>
  \<^verbatim>\<open>ComponentDialog.createChildContext\<close>: \<open>undefined\<close> (\<open>None\<close>) when the inner stack
  is empty. The \<^verbatim>\<open>parent\<close> link it sets is read nowhere in the sources and is left out.
\<close>

definition createChildContext ::
  "(string \<times> Dialog) list \<Rightarrow> DialogContext \<Rightarrow> error + DialogContext option \<times> DialogContext" where
  "createChildContext ds dc =
     (case activeDialog dc of
        None \<Rightarrow> Inl TypeError
      | Some inst \<Rightarrow>
          (case createInnerDC ds (dc_context dc) inst (Some (userState dc)) (Some (conversationState dc)) of
             Inl e \<Rightarrow> Inl e
           | Inr (childDC, inst') \<Rightarrow>
               Inr (if length (stack childDC) > 0 then Some childDC else None,
                    set_activeDialog dc inst')))"

text \<open>The hooks \<^verbatim>\<open>onRepromptDialog\<close> and \<^verbatim>\<open>onEndDialog\<close> of the base class do nothing;
  the call is logged.\<close>

definition onRepromptDialog :: "string \<Rightarrow> TurnContext \<Rightarrow> DialogInstance \<Rightarrow> error + TurnContext \<times> DialogInstance" where
  "onRepromptDialog i ctx inst = Inr (log_event ctx (OnRepromptDialog i), inst)"

definition onEndDialog ::
  "string \<Rightarrow> TurnContext \<Rightarrow> DialogInstance \<Rightarrow> DialogReason \<Rightarrow> error + TurnContext \<times> DialogInstance" where
  "onEndDialog i ctx inst reason = Inr (log_event ctx (OnEndDialog i reason), inst)"

lemma map_of_size:
  "map_of ds k = Some d \<Longrightarrow> size d < Suc (size_list (size_prod (\<lambda>x. 0) size) ds)"
  by (induction ds) (auto split: if_splits)

lemma createInnerDC_dialogs:
  "createInnerDC ds ctx inst us cs = Inr (innerDC, inst') \<Longrightarrow> dc_dialogs innerDC = ds"
  by (auto simp: createInnerDC_def Let_def split: option.splits)

text \<open>
  Modelled from the spec: \<^verbatim>\<open>DialogContext.repromptDialog\<close> (section 4.3; the class is
  not among the sources) delegates to the top frame only; on an empty stack there is
  nothing to do, and a frame whose identifier does not resolve is an error. It is defined
  together with \<open>Dialog_repromptDialog\<close>, the dispatch of
  \<^verbatim>\<open>dialog.repromptDialog(context, instance)\<close> over the two classes of the sources
  (\<^verbatim>\<open>ActivityPrompt.repromptDialog\<close>, \<^verbatim>\<open>ComponentDialog.repromptDialog\<close>), which returns
  the context and the frame as the call leaves them.
\<close>

function Dialog_repromptDialog :: "Dialog \<Rightarrow> TurnContext \<Rightarrow> DialogInstance \<Rightarrow> error + TurnContext \<times> DialogInstance"
  and DialogContext_repromptDialog :: "DialogContext \<Rightarrow> error + DialogContext" where
  "Dialog_repromptDialog (ActivityPrompt i v r) ctx inst =
     (case ActivityPrompt_repromptDialog ctx inst of
        Inl e \<Rightarrow> Inl e
      | Inr ctx' \<Rightarrow> Inr (ctx', inst))"
| "Dialog_repromptDialog (ComponentDialog i init ds) ctx inst =
     (case createInnerDC ds ctx inst None None of
        Inl e \<Rightarrow> Inl e
      | Inr (innerDC, inst1) \<Rightarrow>
          (case DialogContext_repromptDialog innerDC of
             Inl e \<Rightarrow> Inl e
           | Inr innerDC' \<Rightarrow>
               onRepromptDialog i (dc_context innerDC') (put_dialogStack inst1 (stack innerDC'))))"
| "DialogContext_repromptDialog dc =
     (case activeDialog dc of
        None \<Rightarrow> Inr dc
      | Some inst \<Rightarrow>
          (case map_of (dc_dialogs dc) (instance_id inst) of
             None \<Rightarrow> Inl (UnresolvedDialogId (instance_id inst))
           | Some d \<Rightarrow>
               (case Dialog_repromptDialog d (dc_context dc) inst of
                  Inl e \<Rightarrow> Inl e
                | Inr (ctx', inst') \<Rightarrow> Inr (set_activeDialog (dc\<lparr>dc_context := ctx'\<rparr>) inst'))))"
  by pat_completeness auto
termination
  by (relation "measure (\<lambda>x. case x of
          Inl (d, ctx, inst) \<Rightarrow> 2 * size d
        | Inr dc \<Rightarrow> 2 * size_list (size_prod (\<lambda>x. 0) size) (dc_dialogs dc) + 1)")
     (auto dest: map_of_size createInnerDC_dialogs)

declare DialogContext_repromptDialog.simps [simp del]

text \<open>
  Modelled from the spec: \<^verbatim>\<open>DialogContext.cancelAllDialogs\<close> (section 4.3) pops every
  frame from top to bottom, calling each one's \<^verbatim>\<open>endDialog\<close> with reason cancelled, and
  \<^verbatim>\<open>Dialog.endDialog\<close> of the base class (section 4.2, cleanup when the frame is popped),
  which an \<^verbatim>\<open>ActivityPrompt\<close> inherits, does nothing. Each call of a frame's
  \<^verbatim>\<open>endDialog\<close> is logged as \<open>EndDialogCalled\<close>. They are defined together with
  \<open>Dialog_endDialog\<close>, the dispatch of \<^verbatim>\<open>dialog.endDialog(context, instance, reason)\<close>,
  whose second equation is \<^verbatim>\<open>ComponentDialog.endDialog\<close> of the sources.
\<close>

function Dialog_endDialog ::
    "Dialog \<Rightarrow> TurnContext \<Rightarrow> DialogInstance \<Rightarrow> DialogReason \<Rightarrow> error + TurnContext \<times> DialogInstance"
  and DialogContext_cancelAllDialogs :: "DialogContext \<Rightarrow> error + DialogContext" where
  "Dialog_endDialog (ActivityPrompt i v r) ctx inst reason = Inr (ctx, inst)"
| "Dialog_endDialog (ComponentDialog i init ds) ctx inst reason =
     (if reason = cancelCalled then
        (case createInnerDC ds ctx inst None None of
           Inl e \<Rightarrow> Inl e
         | Inr (innerDC, inst1) \<Rightarrow>
             (case DialogContext_cancelAllDialogs innerDC of
                Inl e \<Rightarrow> Inl e
              | Inr innerDC' \<Rightarrow>
                  onEndDialog i (dc_context innerDC') (put_dialogStack inst1 (stack innerDC')) reason))
      else onEndDialog i ctx inst reason)"
| "DialogContext_cancelAllDialogs dc =
     (case activeDialog dc of
        None \<Rightarrow> Inr dc
      | Some inst \<Rightarrow>
          (case map_of (dc_dialogs dc) (instance_id inst) of
             None \<Rightarrow> Inl (UnresolvedDialogId (instance_id inst))
           | Some d \<Rightarrow>
               (case Dialog_endDialog d
                       (log_event (dc_context dc) (EndDialogCalled (instance_id inst) cancelCalled))
                       inst cancelCalled of
                  Inl e \<Rightarrow> Inl e
                | Inr (ctx', inst') \<Rightarrow>
                    DialogContext_cancelAllDialogs (dc\<lparr>dc_context := ctx', stack := butlast (stack dc)\<rparr>))))"
  by pat_completeness auto
termination
  by (relation "inv_image (less_than <*lex*> less_than) (\<lambda>x. case x of
          Inl (d, ctx, inst, reason) \<Rightarrow> (2 * size d, 0)
        | Inr dc \<Rightarrow> (2 * size_list (size_prod (\<lambda>x. 0) size) (dc_dialogs dc) + 1, length (stack dc)))")
     (auto dest: map_of_size createInnerDC_dialogs simp: activeDialog_def split: if_splits)

declare DialogContext_cancelAllDialogs.simps [simp del]

text \<open>\<^verbatim>\<open>ActivityPrompt.resumeDialog\<close>.\<close>

definition ActivityPrompt_resumeDialog ::
  "DialogContext \<Rightarrow> DialogReason \<Rightarrow> any \<Rightarrow> error + DialogContext \<times> DialogTurnResult" where
  "ActivityPrompt_resumeDialog dc reason res =
     (case activeDialog dc of
        None \<Rightarrow> Inl TypeError
      | Some inst \<Rightarrow>
          (case ActivityPrompt_repromptDialog (dc_context dc) inst of
             Inl e \<Rightarrow> Inl e
           | Inr ctx' \<Rightarrow> Inr (dc\<lparr>dc_context := ctx'\<rparr>, EndOfTurn)))"

text \<open>\<^verbatim>\<open>ComponentDialog.resumeDialog\<close>, for the component with identifier \<open>i\<close>,
  entry point \<open>init\<close> and registry \<open>ds\<close>.\<close>

definition ComponentDialog_resumeDialog ::
  "string \<Rightarrow> string option \<Rightarrow> (string \<times> Dialog) list \<Rightarrow> DialogContext \<Rightarrow> DialogReason \<Rightarrow> any \<Rightarrow>
   error + DialogContext \<times> DialogTurnResult" where
  "ComponentDialog_resumeDialog i init ds dc reason res =
     (case activeDialog dc of
        None \<Rightarrow> Inl TypeError
      | Some inst \<Rightarrow>
          (case Dialog_repromptDialog (ComponentDialog i init ds) (dc_context dc) inst of
             Inl e \<Rightarrow> Inl e
           | Inr (ctx', inst') \<Rightarrow> Inr (set_activeDialog (dc\<lparr>dc_context := ctx'\<rparr>) inst', EndOfTurn)))"

text \<open>The dispatch of \<^verbatim>\<open>dialog.resumeDialog(dc, reason, result)\<close>.\<close>

fun Dialog_resumeDialog ::
  "Dialog \<Rightarrow> DialogContext \<Rightarrow> DialogReason \<Rightarrow> any \<Rightarrow> error + DialogContext \<times> DialogTurnResult" where
  "Dialog_resumeDialog (ActivityPrompt i v r) dc reason res = ActivityPrompt_resumeDialog dc reason res"
| "Dialog_resumeDialog (ComponentDialog i init ds) dc reason res =
     ComponentDialog_resumeDialog i init ds dc reason res"

text \<open>
  Modelled from the spec: the first half of \<^verbatim>\<open>DialogContext.endDialog(result)\<close>
  (section 4.3), which pops the top frame, calling its \<^verbatim>\<open>endDialog\<close> with reason normal
  completion. On an empty stack there is nothing to pop.
\<close>

definition pop_frame :: "DialogContext \<Rightarrow> error + DialogContext" where
  "pop_frame dc =
     (case activeDialog dc of
        None \<Rightarrow> Inr dc
      | Some inst \<Rightarrow>
          (case map_of (dc_dialogs dc) (instance_id inst) of
             None \<Rightarrow> Inl (UnresolvedDialogId (instance_id inst))
           | Some d \<Rightarrow>
               (case Dialog_endDialog d
                       (log_event (dc_context dc) (EndDialogCalled (instance_id inst) endCalled))
                       inst endCalled of
                  Inl e \<Rightarrow> Inl e
                | Inr (ctx', inst') \<Rightarrow> Inr (dc\<lparr>dc_context := ctx', stack := butlast (stack dc)\<rparr>))))"

text \<open>
  Modelled from the spec: \<^verbatim>\<open>DialogContext.endDialog(result)\<close> (section 4.3) pops the top
  frame, then calls \<^verbatim>\<open>resumeDialog\<close> with reason normal completion and the result on the
  new top frame, or returns complete to the caller if the stack is now empty.
\<close>

definition DialogContext_endDialog :: "DialogContext \<Rightarrow> any \<Rightarrow> error + DialogContext \<times> DialogTurnResult" where
  "DialogContext_endDialog dc res =
     (case pop_frame dc of
        Inl e \<Rightarrow> Inl e
      | Inr dc1 \<Rightarrow>
          (case activeDialog dc1 of
             None \<Rightarrow> Inr (dc1, \<lparr>status = Complete, result = res\<rparr>)
           | Some parent \<Rightarrow>
               (case map_of (dc_dialogs dc1) (instance_id parent) of
                  None \<Rightarrow> Inl (UnresolvedDialogId (instance_id parent))
                | Some d \<Rightarrow> Dialog_resumeDialog d dc1 endCalled res)))"

section \<open>ActivityPrompt: beginning and continuing\<close>

text \<open>The two guarded assignments of \<^verbatim>\<open>beginDialog\<close>: a prompt that is an activity
  object without a string \<^verbatim>\<open>inputHint\<close> receives \<^verbatim>\<open>InputHints.ExpectingInput\<close>.\<close>

fun ensure_inputHint :: "activity_or_text option \<Rightarrow> activity_or_text option" where
  "ensure_inputHint (Some (Act a)) =
     (if inputHint a = None then Some (Act (a\<lparr>inputHint := Some InputHints_ExpectingInput\<rparr>))
      else Some (Act a))"
| "ensure_inputHint p = p"


text \<open>\<^verbatim>\<open>ActivityPrompt.continueDialog\<close>, for the prompt with validator \<open>v\<close> and
  recognition step \<open>r\<close>. Calling an absent validator is a TypeError.\<close>

definition ActivityPrompt_continueDialog ::
  "(PromptValidatorContext \<Rightarrow> error + bool \<times> TurnContext) option \<Rightarrow>
   (TurnContext \<Rightarrow> jvalue option \<Rightarrow> jvalue option \<Rightarrow> error + PromptRecognizerResult) \<Rightarrow>
   DialogContext \<Rightarrow> error + DialogContext \<times> DialogTurnResult" where
  "ActivityPrompt_continueDialog v r dc =
     (case activeDialog dc of
        None \<Rightarrow> Inl TypeError
      | Some inst \<Rightarrow>
          (let st = StateMap_get (instance_state inst) PERSISTED_STATE;
               options = StateMap_get (instance_state inst) PERSISTED_OPTIONS
           in case r (dc_context dc) st options of
                Inl e \<Rightarrow> Inl e
              | Inr recognized \<Rightarrow>
                  (case v of
                     None \<Rightarrow> Inl TypeError
                   | Some validate \<Rightarrow>
                       (case validate \<lparr>pv_context = dc_context dc, pv_recognized = recognized,
                                       pv_state = st, pv_options = options\<rparr> of
                          Inl e \<Rightarrow> Inl e
                        | Inr (isValid, ctx1) \<Rightarrow>
                            (let dc1 = dc\<lparr>dc_context := ctx1\<rparr>
                             in if isValid
                                then DialogContext_endDialog dc1 (AActivity (recognized_value recognized))
                                else if activity_type (activity ctx1) = Some ActivityTypes_Message
                                        \<and> \<not> responded ctx1
                                then (case onPrompt ctx1 st options True of
                                        Inl e \<Rightarrow> Inl e
                                      | Inr ctx2 \<Rightarrow> Inr (dc1\<lparr>dc_context := ctx2\<rparr>, EndOfTurn))
                                else Inr (dc1, EndOfTurn))))))"

section \<open>ComponentDialog: beginning, consulting, registering\<close>

text \<open>
  What an operation on the inner context did is visible in the outer one: the turn
  context is shared and the inner stack is stored in the outer frame.
\<close>

definition sync_inner :: "DialogContext \<Rightarrow> DialogContext option \<Rightarrow> DialogContext" where
  "sync_inner outerDC innerDC =
     (case innerDC of
        None \<Rightarrow> outerDC
      | Some inner \<Rightarrow>
          (case activeDialog outerDC of
             None \<Rightarrow> outerDC\<lparr>dc_context := dc_context inner\<rparr>
           | Some inst \<Rightarrow>
               set_activeDialog (outerDC\<lparr>dc_context := dc_context inner\<rparr>)
                 (put_dialogStack inst (stack inner))))"

text \<open>\<^verbatim>\<open>ComponentDialog.endComponent\<close>.\<close>

definition endComponent :: "DialogContext \<Rightarrow> any \<Rightarrow> error + DialogContext \<times> DialogTurnResult" where
  "endComponent outerDC res = DialogContext_endDialog outerDC res"

text \<open>
  \<^verbatim>\<open>ComponentDialog.onBeginDialog\<close> of the base class. \<^verbatim>\<open>DialogContext.beginDialog\<close> is
  not among the sources; it is the parameter \<open>dc_beginDialog\<close>. The inner context is
  \<open>None\<close> when \<^verbatim>\<open>createChildContext\<close> returned \<open>undefined\<close>, and calling a method on
  that is a TypeError.
\<close>

definition onBeginDialog ::
  "(DialogContext \<Rightarrow> string option \<Rightarrow> 'o \<Rightarrow> error + DialogContext \<times> DialogTurnResult) \<Rightarrow>
   string option \<Rightarrow> DialogContext option \<Rightarrow> 'o \<Rightarrow> error + DialogContext option \<times> DialogTurnResult" where
  "onBeginDialog dc_beginDialog init innerDC options =
     (case innerDC of
        None \<Rightarrow> Inl TypeError
      | Some inner \<Rightarrow>
          (case dc_beginDialog inner init options of
             Inl e \<Rightarrow> Inl e
           | Inr (inner', r) \<Rightarrow> Inr (Some inner', r)))"

text \<open>
  \<^verbatim>\<open>ComponentDialog.beginDialog\<close>, for the component with registry \<open>ds\<close>. The hook
  \<^verbatim>\<open>onBeginDialog\<close> is overridable and is the parameter \<open>hook\<close>: it receives the inner
  context (or \<open>undefined\<close>) and returns it as it leaves it, with the turn result.
\<close>

definition ComponentDialog_beginDialog ::
  "(DialogContext option \<Rightarrow> 'o \<Rightarrow> error + DialogContext option \<times> DialogTurnResult) \<Rightarrow>
   (string \<times> Dialog) list \<Rightarrow> DialogContext \<Rightarrow> 'o \<Rightarrow> error + DialogContext \<times> DialogTurnResult" where
  "ComponentDialog_beginDialog hook ds outerDC options =
     (case createChildContext ds outerDC of
        Inl e \<Rightarrow> Inl e
      | Inr (innerDC, outerDC1) \<Rightarrow>
          (case hook innerDC options of
             Inl e \<Rightarrow> Inl e
           | Inr (innerDC', turnResult) \<Rightarrow>
               (let outerDC2 = sync_inner outerDC1 innerDC'
                in if status turnResult \<noteq> Waiting
                   then endComponent outerDC2 (result turnResult)
                   else Inr (outerDC2, EndOfTurn))))"

text \<open>
  A \<^verbatim>\<open>DialogConsultation\<close>: the desire and the deferred processing action.
\<close>

record DialogConsultation =
  desire :: DialogConsultationDesire
  processor :: "DialogContext option \<Rightarrow> error + DialogContext option \<times> DialogTurnResult"

text \<open>
  \<^verbatim>\<open>ComponentDialog.onContinueDialog\<close>; \<^verbatim>\<open>DialogContext.continueDialog\<close> is the
  parameter \<open>dc_continueDialog\<close>.
\<close>

definition onContinueDialog ::
  "(DialogContext \<Rightarrow> error + DialogContext \<times> DialogTurnResult) \<Rightarrow> DialogContext option \<Rightarrow>
   DialogConsultation option \<Rightarrow> error + DialogContext option \<times> DialogTurnResult" where
  "onContinueDialog dc_continueDialog innerDC consultation =
     (case consultation of
        Some c \<Rightarrow> processor c innerDC
      | None \<Rightarrow>
          (case innerDC of
             None \<Rightarrow> Inl TypeError
           | Some inner \<Rightarrow>
               (case dc_continueDialog inner of
                  Inl e \<Rightarrow> Inl e
                | Inr (inner', r) \<Rightarrow> Inr (Some inner', r))))"

text \<open>
  \<^verbatim>\<open>ComponentDialog.consultDialog\<close>. The overridable hook \<^verbatim>\<open>onConsultDialog\<close> is the
  parameter \<open>hook\<close>; its result is a consultation or \<open>undefined\<close>.
\<close>

definition ComponentDialog_consultDialog ::
  "(DialogContext option \<Rightarrow> error + DialogConsultation option) \<Rightarrow>
   (DialogContext \<Rightarrow> error + DialogContext \<times> DialogTurnResult) \<Rightarrow>
   (string \<times> Dialog) list \<Rightarrow> DialogContext \<Rightarrow> error + DialogConsultation" where
  "ComponentDialog_consultDialog hook dc_continueDialog ds outerDC =
     (case createChildContext ds outerDC of
        Inl e \<Rightarrow> Inl e
      | Inr (innerDC, outerDC1) \<Rightarrow>
          (case hook innerDC of
             Inl e \<Rightarrow> Inl e
           | Inr innerConsultation \<Rightarrow>
               Inr \<lparr>desire = (case innerConsultation of
                                Some c \<Rightarrow> desire c
                              | None \<Rightarrow> canProcess),
                    processor = (\<lambda>outerDC. onContinueDialog dc_continueDialog innerDC innerConsultation)\<rparr>))"

text \<open>
  \<^verbatim>\<open>ComponentDialog.onConsultDialog\<close> of the base class; \<^verbatim>\<open>DialogContext.consultDialog\<close>
  is the parameter \<open>dc_consultDialog\<close>.
\<close>

definition onConsultDialog ::
  "(DialogContext \<Rightarrow> error + DialogConsultation option) \<Rightarrow> DialogContext option \<Rightarrow>
   error + DialogConsultation option" where
  "onConsultDialog dc_consultDialog innerDC =
     (case innerDC of
        None \<Rightarrow> Inl TypeError
      | Some inner \<Rightarrow> dc_consultDialog inner)"

text \<open>
  Modelled from the spec: the Dialog Registry of section 3 (\<^verbatim>\<open>DialogSet\<close>, reached
  through \<^verbatim>\<open>DialogContainer.addDialog\<close>, neither among the sources) maps identifiers to
  dialogs with unique keys.
\<close>

definition DialogSet_add :: "(string \<times> Dialog) list \<Rightarrow> Dialog \<Rightarrow> (string \<times> Dialog) list" where
  "DialogSet_add ds d = AList.update (dialog_id d) d ds"

text \<open>\<^verbatim>\<open>ComponentDialog.addDialog\<close>; the result is the component after the call. An
  \<^verbatim>\<open>ActivityPrompt\<close> has no such method: the second equation only makes the function total.\<close>

fun ComponentDialog_addDialog :: "Dialog \<Rightarrow> Dialog \<Rightarrow> Dialog" where
  "ComponentDialog_addDialog (ComponentDialog i init ds) d =
     ComponentDialog i (if init = None then Some (dialog_id d) else init) (DialogSet_add ds d)"
| "ComponentDialog_addDialog (ActivityPrompt i v r) d = ActivityPrompt i v r"

text \<open>
  The three priorities of the consultation protocol in the words of the specification
  (section 4.4): a consultation that is absent counts as no interest.
\<close>

datatype priority = no_interest | can_process | should_process

fun spec_priority :: "DialogConsultation option \<Rightarrow> priority" where
  "spec_priority None = no_interest"
| "spec_priority (Some c) = (case desire c of canProcess \<Rightarrow> can_process | shouldProcess \<Rightarrow> should_process)"

section \<open>Well-formed frames\<close>

text \<open>The frames of the inner stack persisted in a component's frame.\<close>

definition inner_frames :: "DialogInstance \<Rightarrow> DialogInstance list" where
  "inner_frames inst =
     (case StateMap_get (instance_state inst) PERSISTED_DIALOG_STATE of
        Some (VDialogState (Some frames)) \<Rightarrow> frames
      | _ \<Rightarrow> [])"

text \<open>
  The frames the two classes leave behind and work on. A prompt's frame holds the options
  persisted by \<^verbatim>\<open>beginDialog\<close>. A component's frame holds a dialog state, every frame of
  whose stack resolves in the component's registry to a dialog for which it is well formed
  in turn.
\<close>

function well_formed_frame :: "Dialog \<Rightarrow> DialogInstance \<Rightarrow> bool" where
  "well_formed_frame (ActivityPrompt i v r) inst =
     (case StateMap_get (instance_state inst) PERSISTED_OPTIONS of
        Some (VOptions opt) \<Rightarrow> True
      | _ \<Rightarrow> False)"
| "well_formed_frame (ComponentDialog i init ds) inst =
     (case StateMap_get (instance_state inst) PERSISTED_DIALOG_STATE of
        None \<Rightarrow> False
      | Some st \<Rightarrow>
          list_all (\<lambda>f. case map_of ds (instance_id f) of
                           None \<Rightarrow> False
                         | Some d \<Rightarrow> well_formed_frame d f)
            (inner_frames inst))"
  by pat_completeness auto
termination
  by (relation "measure (\<lambda>(d, inst). size d)") (auto dest: map_of_size)

definition well_formed_stack :: "(string \<times> Dialog) list \<Rightarrow> DialogInstance list \<Rightarrow> bool" where
  "well_formed_stack ds stk =
     list_all (\<lambda>f. case map_of ds (instance_id f) of
                      None \<Rightarrow> False
                    | Some d \<Rightarrow> well_formed_frame d f) stk"

definition top_well_formed :: "DialogContext \<Rightarrow> bool" where
  "top_well_formed dc =
     (case activeDialog dc of
        None \<Rightarrow> True
      | Some f \<Rightarrow>
          (case map_of (dc_dialogs dc) (instance_id f) of
             None \<Rightarrow> False
           | Some d \<Rightarrow> well_formed_frame d f))"

section \<open>Example inputs\<close>

text \<open>The prompt of the specification's scenario: initial text "Name?", retry text
  "Please answer.", answered by a message activity.\<close>

definition message_activity :: Activity where
  "message_activity = \<lparr>activity_type = Some ''message'', activity_text = Some ''Ada'', inputHint = None\<rparr>"

definition turn0 :: TurnContext where
  "turn0 = \<lparr>activity = message_activity, responded = False, sent = [], trace = []\<rparr>"

definition name_options :: PromptOptions where
  "name_options = \<lparr>prompt = Some (Text ''Name?''), retryPrompt = Some (Text ''Please answer.'')\<rparr>"


definition prompt_frame :: DialogInstance where
  "prompt_frame = DialogInstance ''PromptX'' [(''options'', VOptions name_options), (''state'', VObject [])]"

text \<open>A recognition step of a subclass that claims every activity for the prompt.\<close>

definition critical_recognizer ::
  "TurnContext \<Rightarrow> jvalue option \<Rightarrow> jvalue option \<Rightarrow> error + PromptRecognizerResult" where
  "critical_recognizer ctx st options =
     Inr \<lparr>succeeded = True, recognized_value = activity ctx, allowInterruption = False\<rparr>"

definition prompt_dc :: DialogContext where
  "prompt_dc = \<lparr>dc_dialogs = [(''PromptX'', ActivityPrompt ''PromptX'' None critical_recognizer)],
                dc_context = turn0, stack = [prompt_frame], userState = [], conversationState = []\<rparr>"


definition accepting_validator :: "PromptValidatorContext \<Rightarrow> error + bool \<times> TurnContext" where
  "accepting_validator pvc = Inr (True, pv_context pvc)"

definition rejecting_validator :: "PromptValidatorContext \<Rightarrow> error + bool \<times> TurnContext" where
  "rejecting_validator pvc = Inr (False, pv_context pvc)"

definition answer_dc :: DialogContext where
  "answer_dc = \<lparr>dc_dialogs = [(''PromptX'', ActivityPrompt ''PromptX'' (Some accepting_validator) ActivityPrompt_onRecognize)],
                dc_context = turn0, stack = [prompt_frame], userState = [], conversationState = []\<rparr>"

definition retry_dc :: DialogContext where
  "retry_dc = \<lparr>dc_dialogs = [(''PromptX'', ActivityPrompt ''PromptX'' (Some rejecting_validator) ActivityPrompt_onRecognize)],
               dc_context = turn0, stack = [prompt_frame], userState = [], conversationState = []\<rparr>"

text \<open>The scenario's component: ComponentA, on a running frame whose inner stack holds the
  prompt.\<close>

definition componentA :: Dialog where
  "componentA = ComponentDialog ''ComponentA'' (Some ''PromptX'')
     [(''PromptX'', ActivityPrompt ''PromptX'' (Some accepting_validator) ActivityPrompt_onRecognize)]"

definition component_frame :: DialogInstance where
  "component_frame = DialogInstance ''ComponentA'' [(''dialogs'', VDialogState (Some [prompt_frame]))]"

definition outer_dc :: DialogContext where
  "outer_dc = \<lparr>dc_dialogs = [(''ComponentA'', componentA)], dc_context = turn0,
               stack = [component_frame], userState = [], conversationState = []\<rparr>"

definition inner_dc :: DialogContext where
  "inner_dc = \<lparr>dc_dialogs = dialogs componentA, dc_context = turn0,
               stack = [prompt_frame], userState = [], conversationState = []\<rparr>"

text \<open>Consultation hooks: one that returns no consultation, one that claims the turn.\<close>

definition silent_hook :: "DialogContext option \<Rightarrow> error + DialogConsultation option" where
  "silent_hook innerDC = Inr None"

definition idle_continueDialog :: "DialogContext \<Rightarrow> error + DialogContext \<times> DialogTurnResult" where
  "idle_continueDialog dc = Inr (dc, EndOfTurn)"

definition claiming_hook :: "DialogContext option \<Rightarrow> error + DialogConsultation option" where
  "claiming_hook innerDC =
     Inr (Some \<lparr>desire = shouldProcess, processor = (\<lambda>dc. Inr (dc, EndOfTurn))\<rparr>)"

text \<open>A component around ComponentA: two levels of nesting.\<close>

definition shell :: Dialog where
  "shell = ComponentDialog ''Shell'' (Some ''ComponentA'') [(''ComponentA'', componentA)]"

definition shell_frame :: DialogInstance where
  "shell_frame = DialogInstance ''Shell'' [(''dialogs'', VDialogState (Some [component_frame]))]"

text \<open>
  Beginning a component. The outer context's \<^verbatim>\<open>beginDialog\<close> pushes a frame with an empty
  dialog scope and calls the component's \<^verbatim>\<open>beginDialog\<close> on it: \<open>begun_dc\<close> is the outer
  context at that moment. \<open>emptied_dc\<close> is the same context had the frame been given a
  dialog state with an empty stack.
\<close>

definition fresh_component_frame :: DialogInstance where
  "fresh_component_frame = DialogInstance ''ComponentA'' []"

definition begun_dc :: DialogContext where
  "begun_dc = \<lparr>dc_dialogs = [(''ComponentA'', componentA)], dc_context = turn0,
               stack = [fresh_component_frame], userState = [], conversationState = []\<rparr>"

definition emptied_frame :: DialogInstance where
  "emptied_frame = DialogInstance ''ComponentA'' [(''dialogs'', VDialogState (Some []))]"

definition emptied_dc :: DialogContext where
  "emptied_dc = \<lparr>dc_dialogs = [(''ComponentA'', componentA)], dc_context = turn0,
                 stack = [emptied_frame], userState = [], conversationState = []\<rparr>"

text \<open>
  A component built the way the class comment shows: two prompts added in the
  constructor to a component that assigned no \<^verbatim>\<open>initialDialogId\<close>, then begun on a
  freshly pushed frame.
\<close>

definition promptX :: Dialog where
  "promptX = ActivityPrompt ''PromptX'' (Some accepting_validator) ActivityPrompt_onRecognize"

definition promptY :: Dialog where
  "promptY = ActivityPrompt ''PromptY'' (Some rejecting_validator) ActivityPrompt_onRecognize"

definition built_component :: Dialog where
  "built_component =
     foldl ComponentDialog_addDialog (ComponentDialog ''ComponentA'' None []) [promptX, promptY]"

definition built_dc :: DialogContext where
  "built_dc = \<lparr>dc_dialogs = [(''ComponentA'', built_component)], dc_context = turn0,
               stack = [fresh_component_frame], userState = [], conversationState = []\<rparr>"

section \<open>Auxiliary facts\<close>

lemma truthy_ensure_inputHint [simp]: "truthy (ensure_inputHint p) = truthy p"
  by (cases p rule: ensure_inputHint.cases) auto

lemma get_set_same [simp]: "StateMap_get (StateMap_set m k v) k = Some v"
  by (simp add: StateMap_get_def StateMap_set_def update_conv')

lemma get_set_other [simp]: "k' \<noteq> k \<Longrightarrow> StateMap_get (StateMap_set m k v) k' = StateMap_get m k'"
  by (simp add: StateMap_get_def StateMap_set_def update_conv')

lemma keys_distinct [simp]:
  "PERSISTED_OPTIONS \<noteq> PERSISTED_STATE" "PERSISTED_STATE \<noteq> PERSISTED_OPTIONS"
  "PERSISTED_DIALOG_STATE \<noteq> PERSISTED_STATE" "PERSISTED_DIALOG_STATE \<noteq> PERSISTED_OPTIONS"
  "PERSISTED_STATE \<noteq> PERSISTED_DIALOG_STATE" "PERSISTED_OPTIONS \<noteq> PERSISTED_DIALOG_STATE"
  by (simp_all add: PERSISTED_OPTIONS_def PERSISTED_STATE_def PERSISTED_DIALOG_STATE_def)

lemma activeDialog_context [simp]: "activeDialog (dc\<lparr>dc_context := c\<rparr>) = activeDialog dc"
  by (simp add: activeDialog_def)

lemma pop_frame_prompt:
  assumes "activeDialog dc = Some inst"
    and "map_of (dc_dialogs dc) (instance_id inst) = Some (ActivityPrompt i v r)"
  shows "pop_frame dc = Inr (dc\<lparr>dc_context := log_event (dc_context dc) (EndDialogCalled (instance_id inst) endCalled),
                              stack := butlast (stack dc)\<rparr>)"
  using assms by (simp add: pop_frame_def)

lemma addDialog_keeps_entry:
  "initialDialogId (foldl ComponentDialog_addDialog (ComponentDialog i (Some x) ds0) added) = Some x"
  by (induction added arbitrary: ds0) auto

lemmas example_defs = componentA_def component_frame_def outer_dc_def inner_dc_def prompt_frame_def turn0_def
  name_options_def message_activity_def

lemma createChildContext_outer:
  "createChildContext (dialogs componentA) outer_dc = Inr (Some inner_dc, outer_dc)"
  by (simp add: createChildContext_def createInnerDC_def activeDialog_def set_activeDialog_def
      put_dialogStack_def StateMap_get_def StateMap_set_def PERSISTED_DIALOG_STATE_def Let_def example_defs)

lemma createInnerDC_Some:
  assumes "StateMap_get (instance_state inst) PERSISTED_DIALOG_STATE = Some st"
  shows "createInnerDC ds ctx inst us cs
     = Inr (\<lparr>dc_dialogs = ds, dc_context = ctx, stack = inner_frames inst,
              userState = (case us of None \<Rightarrow> [] | Some u \<Rightarrow> u),
              conversationState = (case cs of None \<Rightarrow> [] | Some c \<Rightarrow> c)\<rparr>,
            put_dialogStack inst (inner_frames inst))"
  using assms
  by (auto simp: createInnerDC_def inner_frames_def Let_def split: jvalue.splits option.splits)

lemma addDialog_registers:
  "map_of (dialogs (ComponentDialog_addDialog (ComponentDialog i init ds) d)) (dialog_id d) = Some d"
  by (simp add: DialogSet_add_def update_conv')

lemma beginDialog_without_inner_state:
  assumes "activeDialog outerDC = Some inst"
    and "StateMap_get (instance_state inst) PERSISTED_DIALOG_STATE = None"
  shows "ComponentDialog_beginDialog hook ds outerDC options = Inl TypeError"
  using assms by (simp add: ComponentDialog_beginDialog_def createChildContext_def createInnerDC_def)

lemma beginDialog_empty_inner_stack:
  assumes "activeDialog outerDC = Some inst"
    and "StateMap_get (instance_state inst) PERSISTED_DIALOG_STATE = Some st"
    and "inner_frames inst = []"
  shows "ComponentDialog_beginDialog (onBeginDialog dc_beginDialog init) ds outerDC options = Inl TypeError"
  using assms createInnerDC_Some [OF assms(2), of ds "dc_context outerDC" "Some (userState outerDC)"
      "Some (conversationState outerDC)"]
  by (simp add: ComponentDialog_beginDialog_def createChildContext_def onBeginDialog_def)

lemma instance_id_put_dialogStack [simp]: "instance_id (put_dialogStack inst stk) = instance_id inst"
  by (simp add: put_dialogStack_def)

lemma map_id_set_activeDialog:
  "activeDialog dc = Some f \<Longrightarrow> instance_id f' = instance_id f \<Longrightarrow>
     map instance_id (stack (set_activeDialog dc f')) = map instance_id (stack dc)"
  by (auto simp: activeDialog_def set_activeDialog_def map_butlast [symmetric] last_map
      snoc_eq_iff_butlast split: if_splits)

lemma onPrompt_options:
  "onPrompt ctx st (Some (VOptions opt)) isRetry
     = Inr (if isRetry \<and> truthy (retryPrompt opt)
            then sendActivity ctx (the (retryPrompt opt)) InputHints_ExpectingInput
            else if truthy (prompt opt)
            then sendActivity ctx (the (prompt opt)) InputHints_ExpectingInput
            else ctx)"
  by (simp add: onPrompt_def)

lemma reprompt_returns:
  "well_formed_frame d inst \<longrightarrow>
     (\<exists>ctx' inst'. Dialog_repromptDialog d ctx inst = Inr (ctx', inst')
        \<and> instance_id inst' = instance_id inst)"
  "top_well_formed dc \<longrightarrow>
     (\<exists>dc'. DialogContext_repromptDialog dc = Inr dc'
        \<and> map instance_id (stack dc') = map instance_id (stack dc))"
proof (induction d ctx inst and dc rule: Dialog_repromptDialog_DialogContext_repromptDialog.induct)
  case (1 i v r ctx inst)
  show ?case
    by (auto simp: ActivityPrompt_repromptDialog_def onPrompt_options split: option.splits jvalue.splits)
next
  case (2 i init ds ctx inst)
  show ?case
  proof
    assume wf: "well_formed_frame (ComponentDialog i init ds) inst"
    then obtain st where st: "StateMap_get (instance_state inst) PERSISTED_DIALOG_STATE = Some st"
      by (auto split: option.splits)
    let ?inner = "\<lparr>dc_dialogs = ds, dc_context = ctx, stack = inner_frames inst,
                    userState = [], conversationState = []\<rparr>"
    have c: "createInnerDC ds ctx inst None None = Inr (?inner, put_dialogStack inst (inner_frames inst))"
      using createInnerDC_Some [OF st, of ds ctx None None] by simp
    have "top_well_formed ?inner"
      using wf st
      by (auto simp: top_well_formed_def activeDialog_def list_all_iff split: option.splits)
    with "2.IH" [OF c refl] obtain dc' where "DialogContext_repromptDialog ?inner = Inr dc'"
      by auto
    then show "\<exists>ctx' inst'. Dialog_repromptDialog (ComponentDialog i init ds) ctx inst = Inr (ctx', inst')
        \<and> instance_id inst' = instance_id inst"
      using c by (simp add: onRepromptDialog_def)
  qed
next
  case (3 dc)
  show ?case
  proof
    assume wf: "top_well_formed dc"
    show "\<exists>dc'. DialogContext_repromptDialog dc = Inr dc'
        \<and> map instance_id (stack dc') = map instance_id (stack dc)"
    proof (cases "activeDialog dc")
      case None
      then show ?thesis by (simp add: DialogContext_repromptDialog.simps)
    next
      case (Some f)
      with wf obtain d where d: "map_of (dc_dialogs dc) (instance_id f) = Some d" "well_formed_frame d f"
        by (auto simp: top_well_formed_def split: option.splits)
      from "3.IH" [OF Some d(1)] d(2) obtain ctx' f' where
        r: "Dialog_repromptDialog d (dc_context dc) f = Inr (ctx', f')" "instance_id f' = instance_id f"
        by auto
      have "activeDialog (dc\<lparr>dc_context := ctx'\<rparr>) = Some f"
        using Some by simp
      from map_id_set_activeDialog [OF this r(2)] show ?thesis
        using Some d r by (simp add: DialogContext_repromptDialog.simps)
    qed
  qed
qed

lemma set_activeDialog_same: "activeDialog dc = Some inst \<Longrightarrow> set_activeDialog dc inst = dc"
  by (auto simp: activeDialog_def set_activeDialog_def split: if_splits)

lemma trace_append_nil [simp]: "ctx\<lparr>trace := trace ctx @ []\<rparr> = (ctx::TurnContext)"
  by simp

lemma stack_split: "activeDialog dc = Some f \<Longrightarrow> rev (stack dc) = f # rev (butlast (stack dc))"
  by (cases "stack dc" rule: rev_cases) (auto simp: activeDialog_def)

lemma cancel_effect:
  "\<forall>ctx' inst'. Dialog_endDialog d ctx inst reason = Inr (ctx', inst') \<longrightarrow>
     (\<exists>evs. ctx' = ctx\<lparr>trace := trace ctx @ evs\<rparr>) \<and> instance_id inst' = instance_id inst"
  "\<forall>dc'. DialogContext_cancelAllDialogs dc = Inr dc' \<longrightarrow>
     stack dc' = [] \<and> dc_dialogs dc' = dc_dialogs dc
     \<and> (\<exists>evs. dc_context dc' = (dc_context dc)\<lparr>trace := trace (dc_context dc) @ evs\<rparr>
            \<and> subseq (map (\<lambda>f. EndDialogCalled (instance_id f) cancelCalled) (rev (stack dc))) evs)"
proof (induction d ctx inst reason and dc rule: Dialog_endDialog_DialogContext_cancelAllDialogs.induct)
  case (1 i v r ctx inst reason)
  show ?case
    by (auto intro: exI [of _ "[]"])
next
  case (2 i init ds ctx inst reason)
  show ?case
  proof (intro allI impI)
    fix ctx' inst'
    assume e: "Dialog_endDialog (ComponentDialog i init ds) ctx inst reason = Inr (ctx', inst')"
    show "(\<exists>evs. ctx' = ctx\<lparr>trace := trace ctx @ evs\<rparr>) \<and> instance_id inst' = instance_id inst"
    proof (cases "reason = cancelCalled")
      case False
      with e have "ctx' = ctx\<lparr>trace := trace ctx @ [OnEndDialog i reason]\<rparr>" "inst' = inst"
        by (auto simp: onEndDialog_def log_event_def)
      then show ?thesis by blast
    next
      case True
      with e obtain innerDC inst1 innerDC' where
        c: "createInnerDC ds ctx inst None None = Inr (innerDC, inst1)"
        and k: "DialogContext_cancelAllDialogs innerDC = Inr innerDC'"
        and o: "onEndDialog i (dc_context innerDC') (put_dialogStack inst1 (stack innerDC')) reason = Inr (ctx', inst')"
        by (auto split: sum.splits)
      from "2.IH" [OF True c refl] k obtain evs where
        evs: "dc_context innerDC' = (dc_context innerDC)\<lparr>trace := trace (dc_context innerDC) @ evs\<rparr>"
        by blast
      have ci: "dc_context innerDC = ctx" "instance_id inst1 = instance_id inst"
        using c by (auto simp: createInnerDC_def Let_def split: option.splits)
      from o evs ci have "ctx' = ctx\<lparr>trace := trace ctx @ (evs @ [OnEndDialog i reason])\<rparr>"
        "instance_id inst' = instance_id inst"
        by (auto simp: onEndDialog_def log_event_def)
      then show ?thesis by blast
    qed
  qed
next
  case (3 dc)
  show ?case
  proof (intro allI impI)
    fix dc'
    assume e: "DialogContext_cancelAllDialogs dc = Inr dc'"
    let ?E = "\<lambda>f. EndDialogCalled (instance_id f) cancelCalled"
    show "stack dc' = [] \<and> dc_dialogs dc' = dc_dialogs dc
     \<and> (\<exists>evs. dc_context dc' = (dc_context dc)\<lparr>trace := trace (dc_context dc) @ evs\<rparr>
            \<and> subseq (map ?E (rev (stack dc))) evs)"
    proof (cases "activeDialog dc")
      case None
      then have "stack dc = []" by (simp add: activeDialog_def split: if_splits)
      moreover from None e have "dc' = dc" by (simp add: DialogContext_cancelAllDialogs.simps [of dc])
      ultimately show ?thesis by (auto intro: exI [of _ "[]"])
    next
      case (Some f)
      let ?ctx0 = "log_event (dc_context dc) (?E f)"
      from Some e obtain d ctx1 f' where
        d: "map_of (dc_dialogs dc) (instance_id f) = Some d"
        and e1: "Dialog_endDialog d ?ctx0 f cancelCalled = Inr (ctx1, f')"
        and e2: "DialogContext_cancelAllDialogs (dc\<lparr>dc_context := ctx1, stack := butlast (stack dc)\<rparr>) = Inr dc'"
        by (auto simp: DialogContext_cancelAllDialogs.simps [of dc] split: option.splits sum.splits)
      from "3.IH"(1) [OF Some d] e1 obtain evs1 where
        evs1: "ctx1 = ?ctx0\<lparr>trace := trace ?ctx0 @ evs1\<rparr>"
        by blast
      let ?dc2 = "dc\<lparr>dc_context := ctx1, stack := butlast (stack dc)\<rparr>"
      from "3.IH"(2) [OF Some d e1 refl] e2
      have ih: "stack dc' = [] \<and> dc_dialogs dc' = dc_dialogs ?dc2
          \<and> (\<exists>evs. dc_context dc' = (dc_context ?dc2)\<lparr>trace := trace (dc_context ?dc2) @ evs\<rparr>
                 \<and> subseq (map ?E (rev (stack ?dc2))) evs)"
        by blast
      then have s: "stack dc' = []" "dc_dialogs dc' = dc_dialogs dc"
        by simp_all
      from ih obtain evs2 where
        evs2: "dc_context dc' = ctx1\<lparr>trace := trace ctx1 @ evs2\<rparr>"
        and sub: "subseq (map ?E (rev (butlast (stack dc)))) evs2"
        by (elim conjE exE) simp
      have t: "dc_context dc' = (dc_context dc)\<lparr>trace := trace (dc_context dc) @ (?E f # evs1 @ evs2)\<rparr>"
        using evs1 evs2 by (simp add: log_event_def)
      have "subseq (map ?E (rev (butlast (stack dc)))) (evs1 @ evs2)"
        using sub by (rule list_emb_append2)
      then have "subseq (?E f # map ?E (rev (butlast (stack dc)))) (?E f # evs1 @ evs2)"
        by simp
      then have "subseq (map ?E (rev (stack dc))) (?E f # evs1 @ evs2)"
        by (simp only: stack_split [OF Some] list.map)
      with s t show ?thesis by blast
    qed
  qed
qed

lemma well_formed_stack_butlast:
  "well_formed_stack ds stk \<Longrightarrow> well_formed_stack ds (butlast stk)"
  by (auto simp: well_formed_stack_def list_all_iff dest: in_set_butlastD)

lemma well_formed_stack_top:
  "well_formed_stack (dc_dialogs dc) (stack dc) \<Longrightarrow> activeDialog dc = Some f \<Longrightarrow>
     \<exists>d. map_of (dc_dialogs dc) (instance_id f) = Some d \<and> well_formed_frame d f"
proof -
  assume ws: "well_formed_stack (dc_dialogs dc) (stack dc)" and a: "activeDialog dc = Some f"
  from a have "f \<in> set (stack dc)"
    by (auto simp: activeDialog_def split: if_splits)
  with ws show ?thesis
    by (auto simp: well_formed_stack_def list_all_iff split: option.splits)
qed

lemma well_formed_component:
  "well_formed_frame (ComponentDialog i init ds) inst \<Longrightarrow>
     (\<exists>st. StateMap_get (instance_state inst) PERSISTED_DIALOG_STATE = Some st)
     \<and> well_formed_stack ds (inner_frames inst)"
  by (auto simp: well_formed_stack_def split: option.splits)

lemma inner_frames_put_dialogStack [simp]: "inner_frames (put_dialogStack inst stk) = stk"
  by (simp add: inner_frames_def put_dialogStack_def)

lemma cancel_returns:
  "well_formed_frame d inst \<longrightarrow> (\<exists>ctx' inst'. Dialog_endDialog d ctx inst reason = Inr (ctx', inst'))"
  "well_formed_stack (dc_dialogs dc) (stack dc) \<longrightarrow> (\<exists>dc'. DialogContext_cancelAllDialogs dc = Inr dc')"
proof (induction d ctx inst reason and dc rule: Dialog_endDialog_DialogContext_cancelAllDialogs.induct)
  case (1 i v r ctx inst reason)
  show ?case by simp
next
  case (2 i init ds ctx inst reason)
  show ?case
  proof
    assume wf: "well_formed_frame (ComponentDialog i init ds) inst"
    show "\<exists>ctx' inst'. Dialog_endDialog (ComponentDialog i init ds) ctx inst reason = Inr (ctx', inst')"
    proof (cases "reason = cancelCalled")
      case False
      then show ?thesis by (simp add: onEndDialog_def)
    next
      case True
      from well_formed_component [OF wf] obtain st where
        st: "StateMap_get (instance_state inst) PERSISTED_DIALOG_STATE = Some st"
        and ws: "well_formed_stack ds (inner_frames inst)"
        by blast
      let ?inner = "\<lparr>dc_dialogs = ds, dc_context = ctx, stack = inner_frames inst,
                      userState = [], conversationState = []\<rparr>"
      have c: "createInnerDC ds ctx inst None None = Inr (?inner, put_dialogStack inst (inner_frames inst))"
        using createInnerDC_Some [OF st, of ds ctx None None] by simp
      from "2.IH" [OF True c refl] ws obtain dc' where "DialogContext_cancelAllDialogs ?inner = Inr dc'"
        by auto
      then show ?thesis
        using True c by (simp add: onEndDialog_def)
    qed
  qed
next
  case (3 dc)
  show ?case
  proof
    assume ws: "well_formed_stack (dc_dialogs dc) (stack dc)"
    show "\<exists>dc'. DialogContext_cancelAllDialogs dc = Inr dc'"
    proof (cases "activeDialog dc")
      case None
      then show ?thesis by (simp add: DialogContext_cancelAllDialogs.simps [of dc])
    next
      case (Some f)
      from well_formed_stack_top [OF ws Some] obtain d where
        d: "map_of (dc_dialogs dc) (instance_id f) = Some d" and wf: "well_formed_frame d f"
        by blast
      let ?ctx0 = "log_event (dc_context dc) (EndDialogCalled (instance_id f) cancelCalled)"
      from "3.IH"(1) [OF Some d] wf obtain ctx1 f' where
        e1: "Dialog_endDialog d ?ctx0 f cancelCalled = Inr (ctx1, f')"
        by blast
      let ?dc2 = "dc\<lparr>dc_context := ctx1, stack := butlast (stack dc)\<rparr>"
      have "well_formed_stack (dc_dialogs ?dc2) (stack ?dc2)"
        using well_formed_stack_butlast [OF ws] by simp
      with "3.IH"(2) [OF Some d e1 refl] obtain dc' where "DialogContext_cancelAllDialogs ?dc2 = Inr dc'"
        by blast
      then show ?thesis
        using Some d e1 by (simp add: DialogContext_cancelAllDialogs.simps [of dc])
    qed
  qed
qed

lemmas eval_defs = example_defs activeDialog_def set_activeDialog_def put_dialogStack_def
  StateMap_get_def StateMap_set_def PERSISTED_DIALOG_STATE_def PERSISTED_OPTIONS_def PERSISTED_STATE_def
  createInnerDC_def inner_frames_def Let_def log_event_def onEndDialog_def onRepromptDialog_def
  sendActivity_def InputHints_ExpectingInput_def

lemma well_formed_shell: "well_formed_frame shell shell_frame"
  by (simp add: shell_def shell_frame_def eval_defs)

lemma well_formed_componentA: "well_formed_frame componentA component_frame"
  by (simp add: eval_defs)

section \<open>The claims\<close>

text \<open>
  Claim C3. On a turn where the prompt's frame is the active one and the recognition step
  returns a result, the \<^verbatim>\<open>consultDialog\<close> event handler of \<^verbatim>\<open>ActivityPrompt\<close> answers
  true (should-process) exactly when that result has \<open>succeeded\<close> true and
  \<open>allowInterruption\<close> false, and false in every other case.
\<close>

theorem consult_should_process_iff:
  assumes "activeDialog dc = Some inst"
    and "r (dc_context dc) (StateMap_get (instance_state inst) PERSISTED_STATE)
           (StateMap_get (instance_state inst) PERSISTED_OPTIONS) = Inr recognized"
  shows "ActivityPrompt_onDialogEvent super r dc ''consultDialog''
           = Inr (succeeded recognized \<and> \<not> allowInterruption recognized)"
  using assms by (simp add: ActivityPrompt_onDialogEvent_def)

theorem consult_should_process_iff_witness:
  "activeDialog prompt_dc = Some prompt_frame
   \<and> ActivityPrompt_onDialogEvent False critical_recognizer prompt_dc ''consultDialog'' = Inr True"
proof -
  have a: "activeDialog prompt_dc = Some prompt_frame"
    by (simp add: activeDialog_def prompt_dc_def)
  have r: "critical_recognizer (dc_context prompt_dc)
             (StateMap_get (instance_state prompt_frame) PERSISTED_STATE)
             (StateMap_get (instance_state prompt_frame) PERSISTED_OPTIONS)
           = Inr \<lparr>succeeded = True, recognized_value = message_activity, allowInterruption = False\<rparr>"
    by (simp add: critical_recognizer_def prompt_dc_def turn0_def)
  show ?thesis
    using a r consult_should_process_iff [where dc = prompt_dc and inst = prompt_frame
        and r = critical_recognizer and super = False
        and recognized = "\<lparr>succeeded = True, recognized_value = message_activity, allowInterruption = False\<rparr>"]
    by simp
qed

text \<open>
  Claim C10. The recognition step of the base \<^verbatim>\<open>ActivityPrompt\<close> returns, for every turn
  context, \<open>succeeded\<close> true, the turn's raw activity as the value and
  \<open>allowInterruption\<close> true; so with that recognition step the \<^verbatim>\<open>consultDialog\<close>
  event handler answers false on every active frame, whatever the activity (and raises
  when there is no active frame): it never answers true.
\<close>

theorem base_recognition_never_claims:
  "ActivityPrompt_onRecognize ctx st options
     = Inr \<lparr>succeeded = True, recognized_value = activity ctx, allowInterruption = True\<rparr>
   \<and> ActivityPrompt_onDialogEvent super ActivityPrompt_onRecognize dc ''consultDialog''
     = (case activeDialog dc of None \<Rightarrow> Inl TypeError | Some inst \<Rightarrow> Inr False)"
  by (simp add: ActivityPrompt_onDialogEvent_def ActivityPrompt_onRecognize_def split: option.splits)



text \<open>
  Claim C5. On a turn where \<^verbatim>\<open>ActivityPrompt.continueDialog\<close> runs on its active frame,
  recognition returns a result and the validator returns: if the validator accepts, the
  prompt ends its frame through the context's \<^verbatim>\<open>endDialog\<close> with the recognized value as
  the result (for a prompt that is the only frame, the stack is then empty and the outcome
  is complete with that value); if it rejects, the prompt sends the retry prompt when the
  persisted options carry one and the initial prompt otherwise, but only when the turn's
  activity is a message and nothing has been sent this turn, and in every rejection case
  it returns the waiting outcome.
\<close>

theorem continueDialog_accept_or_reprompt:
  assumes "activeDialog dc = Some inst"
    and "r (dc_context dc) (StateMap_get (instance_state inst) PERSISTED_STATE)
           (StateMap_get (instance_state inst) PERSISTED_OPTIONS) = Inr recognized"
    and "validate \<lparr>pv_context = dc_context dc, pv_recognized = recognized,
                    pv_state = StateMap_get (instance_state inst) PERSISTED_STATE,
                    pv_options = StateMap_get (instance_state inst) PERSISTED_OPTIONS\<rparr> = Inr (isValid, vctx)"
  shows "(isValid \<longrightarrow>
            ActivityPrompt_continueDialog (Some validate) r dc
              = DialogContext_endDialog (dc\<lparr>dc_context := vctx\<rparr>) (AActivity (recognized_value recognized)))
       \<and> (isValid \<and> stack dc = [inst]
            \<and> map_of (dc_dialogs dc) (instance_id inst) = Some (ActivityPrompt i v r') \<longrightarrow>
            ActivityPrompt_continueDialog (Some validate) r dc
              = Inr (dc\<lparr>dc_context := log_event vctx (EndDialogCalled (instance_id inst) endCalled), stack := []\<rparr>,
                     \<lparr>status = Complete, result = AActivity (recognized_value recognized)\<rparr>))
       \<and> (\<not> isValid \<and> StateMap_get (instance_state inst) PERSISTED_OPTIONS = Some (VOptions opt) \<longrightarrow>
            ActivityPrompt_continueDialog (Some validate) r dc
              = Inr (dc\<lparr>dc_context :=
                        (if activity_type (activity vctx) = Some ActivityTypes_Message \<and> \<not> responded vctx
                         then (if truthy (retryPrompt opt)
                               then sendActivity vctx (the (retryPrompt opt)) InputHints_ExpectingInput
                               else if truthy (prompt opt)
                               then sendActivity vctx (the (prompt opt)) InputHints_ExpectingInput
                               else vctx)
                         else vctx)\<rparr>, EndOfTurn))"
proof (intro conjI impI)
  assume "isValid"
  then show "ActivityPrompt_continueDialog (Some validate) r dc
              = DialogContext_endDialog (dc\<lparr>dc_context := vctx\<rparr>) (AActivity (recognized_value recognized))"
    using assms by (simp add: ActivityPrompt_continueDialog_def Let_def)
next
  assume h: "isValid \<and> stack dc = [inst]
            \<and> map_of (dc_dialogs dc) (instance_id inst) = Some (ActivityPrompt i v r')"
  have a1: "activeDialog (dc\<lparr>dc_context := vctx\<rparr>) = Some inst"
    using assms(1) by simp
  have "pop_frame (dc\<lparr>dc_context := vctx\<rparr>)
          = Inr (dc\<lparr>dc_context := log_event vctx (EndDialogCalled (instance_id inst) endCalled), stack := []\<rparr>)"
    using pop_frame_prompt [OF a1, of i v r'] h by simp
  then have "DialogContext_endDialog (dc\<lparr>dc_context := vctx\<rparr>) (AActivity (recognized_value recognized))
          = Inr (dc\<lparr>dc_context := log_event vctx (EndDialogCalled (instance_id inst) endCalled), stack := []\<rparr>,
                 \<lparr>status = Complete, result = AActivity (recognized_value recognized)\<rparr>)"
    by (simp add: DialogContext_endDialog_def activeDialog_def)
  then show "ActivityPrompt_continueDialog (Some validate) r dc
              = Inr (dc\<lparr>dc_context := log_event vctx (EndDialogCalled (instance_id inst) endCalled), stack := []\<rparr>,
                     \<lparr>status = Complete, result = AActivity (recognized_value recognized)\<rparr>)"
    using assms h by (simp add: ActivityPrompt_continueDialog_def Let_def)
next
  assume "\<not> isValid \<and> StateMap_get (instance_state inst) PERSISTED_OPTIONS = Some (VOptions opt)"
  then show "ActivityPrompt_continueDialog (Some validate) r dc
              = Inr (dc\<lparr>dc_context :=
                        (if activity_type (activity vctx) = Some ActivityTypes_Message \<and> \<not> responded vctx
                         then (if truthy (retryPrompt opt)
                               then sendActivity vctx (the (retryPrompt opt)) InputHints_ExpectingInput
                               else if truthy (prompt opt)
                               then sendActivity vctx (the (prompt opt)) InputHints_ExpectingInput
                               else vctx)
                         else vctx)\<rparr>, EndOfTurn)"
    using assms by (simp add: ActivityPrompt_continueDialog_def Let_def onPrompt_def)
qed

theorem continueDialog_accept_or_reprompt_witness:
  "ActivityPrompt_continueDialog (Some accepting_validator) ActivityPrompt_onRecognize answer_dc
     = Inr (answer_dc\<lparr>dc_context := turn0\<lparr>trace := [EndDialogCalled ''PromptX'' endCalled]\<rparr>, stack := []\<rparr>,
            \<lparr>status = Complete, result = AActivity message_activity\<rparr>)
   \<and> ActivityPrompt_continueDialog (Some rejecting_validator) ActivityPrompt_onRecognize answer_dc
     = Inr (answer_dc\<lparr>dc_context := turn0\<lparr>responded := True,
                sent := [(Text ''Please answer.'', ''expectingInput'')]\<rparr>\<rparr>, EndOfTurn)"
proof -
  have a: "activeDialog answer_dc = Some prompt_frame"
    by (simp add: activeDialog_def answer_dc_def)
  have r: "ActivityPrompt_onRecognize (dc_context answer_dc)
             (StateMap_get (instance_state prompt_frame) PERSISTED_STATE)
             (StateMap_get (instance_state prompt_frame) PERSISTED_OPTIONS)
           = Inr \<lparr>succeeded = True, recognized_value = message_activity, allowInterruption = True\<rparr>"
    by (simp add: ActivityPrompt_onRecognize_def answer_dc_def turn0_def)
  have v1: "accepting_validator \<lparr>pv_context = dc_context answer_dc,
               pv_recognized = \<lparr>succeeded = True, recognized_value = message_activity, allowInterruption = True\<rparr>,
               pv_state = StateMap_get (instance_state prompt_frame) PERSISTED_STATE,
               pv_options = StateMap_get (instance_state prompt_frame) PERSISTED_OPTIONS\<rparr> = Inr (True, turn0)"
    by (simp add: accepting_validator_def answer_dc_def)
  have v2: "rejecting_validator \<lparr>pv_context = dc_context answer_dc,
               pv_recognized = \<lparr>succeeded = True, recognized_value = message_activity, allowInterruption = True\<rparr>,
               pv_state = StateMap_get (instance_state prompt_frame) PERSISTED_STATE,
               pv_options = StateMap_get (instance_state prompt_frame) PERSISTED_OPTIONS\<rparr> = Inr (False, turn0)"
    by (simp add: rejecting_validator_def answer_dc_def)
  have s: "stack answer_dc = [prompt_frame]"
    by (simp add: answer_dc_def)
  have m: "map_of (dc_dialogs answer_dc) (instance_id prompt_frame)
             = Some (ActivityPrompt ''PromptX'' (Some accepting_validator) ActivityPrompt_onRecognize)"
    by (simp add: answer_dc_def prompt_frame_def)
  have o: "StateMap_get (instance_state prompt_frame) PERSISTED_OPTIONS = Some (VOptions name_options)"
    by (simp add: prompt_frame_def StateMap_get_def PERSISTED_OPTIONS_def)
  note t1 = continueDialog_accept_or_reprompt [where dc = answer_dc and inst = prompt_frame
      and r = ActivityPrompt_onRecognize and validate = accepting_validator and isValid = True
      and vctx = turn0 and i = "''PromptX''" and v = "Some accepting_validator"
      and r' = ActivityPrompt_onRecognize and opt = name_options
      and recognized = "\<lparr>succeeded = True, recognized_value = message_activity, allowInterruption = True\<rparr>", OF a r v1]
  note t2 = continueDialog_accept_or_reprompt [where dc = answer_dc and inst = prompt_frame
      and r = ActivityPrompt_onRecognize and validate = rejecting_validator and isValid = False
      and vctx = turn0 and i = "''PromptX''" and v = "Some accepting_validator"
      and r' = ActivityPrompt_onRecognize and opt = name_options
      and recognized = "\<lparr>succeeded = True, recognized_value = message_activity, allowInterruption = True\<rparr>", OF a r v2]
  have c1: "ActivityPrompt_continueDialog (Some accepting_validator) ActivityPrompt_onRecognize answer_dc
     = Inr (answer_dc\<lparr>dc_context := log_event turn0 (EndDialogCalled (instance_id prompt_frame) endCalled),
                       stack := []\<rparr>,
            \<lparr>status = Complete, result = AActivity (recognized_value
               \<lparr>succeeded = True, recognized_value = message_activity, allowInterruption = True\<rparr>)\<rparr>)"
    using t1 s m by blast
  have c2: "ActivityPrompt_continueDialog (Some rejecting_validator) ActivityPrompt_onRecognize answer_dc
     = Inr (answer_dc\<lparr>dc_context :=
              (if activity_type (activity turn0) = Some ActivityTypes_Message \<and> \<not> responded turn0
               then (if truthy (retryPrompt name_options)
                     then sendActivity turn0 (the (retryPrompt name_options)) InputHints_ExpectingInput
                     else if truthy (prompt name_options)
                     then sendActivity turn0 (the (prompt name_options)) InputHints_ExpectingInput
                     else turn0)
               else turn0)\<rparr>, EndOfTurn)"
    using t2 o by blast
  show ?thesis
    unfolding c1 c2
    by (simp add: log_event_def turn0_def prompt_frame_def name_options_def message_activity_def
        ActivityTypes_Message_def sendActivity_def InputHints_ExpectingInput_def)
qed

text \<open>
  Claim C9. On a turn where the validator rejects the input, whatever
  \<^verbatim>\<open>ActivityPrompt.continueDialog\<close> returns leaves the dialog stack as it was: no frame is
  popped or pushed, the prompt's frame is still the active one, and the outcome is
  waiting; with options persisted in the frame the call does return, and the persisted
  options are the same before and after.
\<close>

theorem reprompt_keeps_stack_and_options:
  assumes "activeDialog dc = Some inst"
    and "r (dc_context dc) (StateMap_get (instance_state inst) PERSISTED_STATE)
           (StateMap_get (instance_state inst) PERSISTED_OPTIONS) = Inr recognized"
    and "validate \<lparr>pv_context = dc_context dc, pv_recognized = recognized,
                    pv_state = StateMap_get (instance_state inst) PERSISTED_STATE,
                    pv_options = StateMap_get (instance_state inst) PERSISTED_OPTIONS\<rparr> = Inr (False, vctx)"
  shows "(\<forall>dc' res. ActivityPrompt_continueDialog (Some validate) r dc = Inr (dc', res) \<longrightarrow>
            stack dc' = stack dc \<and> length (stack dc') = length (stack dc)
            \<and> activeDialog dc' = Some inst \<and> res = EndOfTurn)
       \<and> (StateMap_get (instance_state inst) PERSISTED_OPTIONS = Some (VOptions opt) \<longrightarrow>
            (\<exists>dc'. ActivityPrompt_continueDialog (Some validate) r dc = Inr (dc', EndOfTurn)
                 \<and> stack dc' = stack dc
                 \<and> StateMap_get (instance_state (last (stack dc'))) PERSISTED_OPTIONS = Some (VOptions opt)))"
  using assms
  by (auto simp: ActivityPrompt_continueDialog_def Let_def onPrompt_def activeDialog_def
      split: sum.splits if_splits option.splits jvalue.splits)

theorem reprompt_keeps_stack_and_options_witness:
  "ActivityPrompt_continueDialog (Some rejecting_validator) ActivityPrompt_onRecognize retry_dc
     = Inr (retry_dc\<lparr>dc_context := turn0\<lparr>responded := True,
                sent := [(Text ''Please answer.'', ''expectingInput'')]\<rparr>\<rparr>, EndOfTurn)
   \<and> stack retry_dc = [prompt_frame]"
proof -
  have a: "activeDialog retry_dc = Some prompt_frame"
    by (simp add: activeDialog_def retry_dc_def)
  have r: "ActivityPrompt_onRecognize (dc_context retry_dc)
             (StateMap_get (instance_state prompt_frame) PERSISTED_STATE)
             (StateMap_get (instance_state prompt_frame) PERSISTED_OPTIONS)
           = Inr \<lparr>succeeded = True, recognized_value = message_activity, allowInterruption = True\<rparr>"
    by (simp add: ActivityPrompt_onRecognize_def retry_dc_def turn0_def)
  have v: "rejecting_validator \<lparr>pv_context = dc_context retry_dc,
               pv_recognized = \<lparr>succeeded = True, recognized_value = message_activity, allowInterruption = True\<rparr>,
               pv_state = StateMap_get (instance_state prompt_frame) PERSISTED_STATE,
               pv_options = StateMap_get (instance_state prompt_frame) PERSISTED_OPTIONS\<rparr> = Inr (False, turn0)"
    by (simp add: rejecting_validator_def retry_dc_def)
  have o: "StateMap_get (instance_state prompt_frame) PERSISTED_OPTIONS = Some (VOptions name_options)"
    by (simp add: prompt_frame_def StateMap_get_def PERSISTED_OPTIONS_def)
  have e: "ActivityPrompt_continueDialog (Some rejecting_validator) ActivityPrompt_onRecognize retry_dc
     = Inr (retry_dc\<lparr>dc_context := turn0\<lparr>responded := True,
                sent := [(Text ''Please answer.'', ''expectingInput'')]\<rparr>\<rparr>, EndOfTurn)"
    using a r v o
    by (simp add: ActivityPrompt_continueDialog_def Let_def onPrompt_def name_options_def turn0_def
        message_activity_def ActivityTypes_Message_def sendActivity_def InputHints_ExpectingInput_def)
  show ?thesis
    using reprompt_keeps_stack_and_options [where dc = retry_dc and inst = prompt_frame
        and r = ActivityPrompt_onRecognize and validate = rejecting_validator and vctx = turn0
        and opt = name_options and recognized = "\<lparr>succeeded = True, recognized_value = message_activity, allowInterruption = True\<rparr>", OF a r v] o e
    by (simp add: retry_dc_def)
qed

text \<open>
  Claim C8. After any sequence of \<^verbatim>\<open>addDialog\<close> calls on a component whose
  \<^verbatim>\<open>initialDialogId\<close> was undefined, \<^verbatim>\<open>initialDialogId\<close> is the identifier of the first
  dialog added, and a component that had assigned \<^verbatim>\<open>initialDialogId\<close> beforehand keeps its
  own value. Beginning the component, however, does not start the inner stack with that
  identifier: for the component built from two prompts, the first-added \<open>PromptX\<close> is the
  entry point and is registered, yet \<^verbatim>\<open>beginDialog\<close> on the freshly pushed frame raises a
  TypeError before \<^verbatim>\<open>DialogContext.beginDialog\<close> is reached, whatever that method does.
\<close>

theorem beginDialog_never_starts_entry_dialog:
  "initialDialogId (foldl ComponentDialog_addDialog (ComponentDialog i None ds0) (d # rest))
     = Some (dialog_id d)
   \<and> initialDialogId (foldl ComponentDialog_addDialog (ComponentDialog i (Some x) ds0) added) = Some x
   \<and> initialDialogId built_component = Some ''PromptX''
   \<and> map_of (dialogs built_component) ''PromptX'' = Some promptX
   \<and> ComponentDialog_beginDialog (onBeginDialog dc_beginDialog (initialDialogId built_component))
        (dialogs built_component) built_dc options = Inl TypeError"
proof -
  have a: "activeDialog built_dc = Some fresh_component_frame"
    by (simp add: activeDialog_def built_dc_def)
  have n: "StateMap_get (instance_state fresh_component_frame) PERSISTED_DIALOG_STATE = None"
    by (simp add: fresh_component_frame_def StateMap_get_def)
  have b: "built_component = ComponentDialog ''ComponentA'' (Some ''PromptX'')
             [(''PromptX'', promptX), (''PromptY'', promptY)]"
    by (simp add: built_component_def promptX_def promptY_def DialogSet_add_def)
  have m: "map_of (dialogs built_component) ''PromptX'' = Some promptX"
    by (simp add: b)
  show ?thesis
    using beginDialog_without_inner_state [OF a n] m
    by (simp add: addDialog_keeps_entry b)
qed

text \<open>
  Claim C7, as amended. When the component's \<^verbatim>\<open>consultDialog\<close> obtains its child context
  and the hook \<^verbatim>\<open>onConsultDialog\<close> returns, the surfaced consultation carries the desire
  of the inner consultation when there is one; when the hook's result is absent the
  component still surfaces a consultation, with desire can-process, whose processor
  continues the inner stack.
\<close>

theorem consultDialog_surfaces_inner_desire:
  assumes "createChildContext ds outerDC = Inr (innerDC, outerDC1)"
    and "hook innerDC = Inr innerConsultation"
  shows "\<exists>c. ComponentDialog_consultDialog hook dc_continueDialog ds outerDC = Inr c
           \<and> desire c = (case innerConsultation of Some ic \<Rightarrow> desire ic | None \<Rightarrow> canProcess)
           \<and> spec_priority (Some c)
               = (case innerConsultation of Some ic \<Rightarrow> spec_priority (Some ic) | None \<Rightarrow> can_process)
           \<and> processor c = (\<lambda>dc. onContinueDialog dc_continueDialog innerDC innerConsultation)"
  using assms
  by (auto simp: ComponentDialog_consultDialog_def split: option.splits DialogConsultationDesire.splits)

theorem consultDialog_surfaces_inner_desire_witness:
  "\<exists>c. ComponentDialog_consultDialog claiming_hook idle_continueDialog (dialogs componentA) outer_dc = Inr c
       \<and> desire c = shouldProcess \<and> spec_priority (Some c) = should_process"
proof -
  have h: "claiming_hook (Some inner_dc)
             = Inr (Some \<lparr>desire = shouldProcess, processor = (\<lambda>dc. Inr (dc, EndOfTurn))\<rparr>)"
    by (simp add: claiming_hook_def)
  show ?thesis
    using consultDialog_surfaces_inner_desire [where hook = claiming_hook
        and dc_continueDialog = idle_continueDialog, OF createChildContext_outer h]
    by auto
qed

text \<open>
  Claim C7 as stated fails where the hook's result is absent: the component of the
  scenario then surfaces the priority can-process, not no-interest.
\<close>

theorem consultDialog_absent_counterexample:
  "silent_hook (Some inner_dc) = Inr None
   \<and> spec_priority None = no_interest
   \<and> (case ComponentDialog_consultDialog silent_hook idle_continueDialog (dialogs componentA) outer_dc of
        Inl e \<Rightarrow> None
      | Inr c \<Rightarrow> Some (desire c, spec_priority (Some c))) = Some (canProcess, can_process)"
  by (simp add: ComponentDialog_consultDialog_def createChildContext_outer silent_hook_def)

text \<open>
  Claim C2. The claim says that every call of \<^verbatim>\<open>ComponentDialog.beginDialog\<close> either ends
  the outer frame with the inner result or leaves it waiting. On the frame the outer
  context has just pushed, whose dialog scope is empty, the call does neither: reading the
  persisted inner dialog state raises a TypeError, whatever the hook \<^verbatim>\<open>onBeginDialog\<close> is.
  Had the frame held a dialog state with an empty stack, \<^verbatim>\<open>createChildContext\<close> would
  return \<open>undefined\<close> and the \<^verbatim>\<open>onBeginDialog\<close> of the base class would raise all the same.
\<close>

theorem beginDialog_raises_on_fresh_frame:
  "ComponentDialog_beginDialog hook (dialogs componentA) begun_dc options = Inl TypeError
   \<and> ComponentDialog_beginDialog (onBeginDialog dc_beginDialog (initialDialogId componentA))
        (dialogs componentA) emptied_dc options = Inl TypeError"
proof
  have a: "activeDialog begun_dc = Some fresh_component_frame"
    by (simp add: activeDialog_def begun_dc_def)
  have n: "StateMap_get (instance_state fresh_component_frame) PERSISTED_DIALOG_STATE = None"
    by (simp add: fresh_component_frame_def StateMap_get_def)
  show "ComponentDialog_beginDialog hook (dialogs componentA) begun_dc options = Inl TypeError"
    by (rule beginDialog_without_inner_state [OF a n])
next
  have a: "activeDialog emptied_dc = Some emptied_frame"
    by (simp add: activeDialog_def emptied_dc_def)
  have st: "StateMap_get (instance_state emptied_frame) PERSISTED_DIALOG_STATE
              = Some (VDialogState (Some []))"
    by (simp add: emptied_frame_def StateMap_get_def PERSISTED_DIALOG_STATE_def)
  have e: "inner_frames emptied_frame = []"
    by (simp add: inner_frames_def st)
  show "ComponentDialog_beginDialog (onBeginDialog dc_beginDialog (initialDialogId componentA))
          (dialogs componentA) emptied_dc options = Inl TypeError"
    by (rule beginDialog_empty_inner_stack [OF a st e])
qed

text \<open>
  Claim C1. \<^verbatim>\<open>ComponentDialog.endDialog\<close> on a well-formed component frame: for a reason
  other than cancellation only the cleanup hook \<^verbatim>\<open>onEndDialog\<close> runs and the frame with
  its inner stack is left as it was; for the reason cancellation the inner context's
  \<^verbatim>\<open>cancelAllDialogs\<close> runs first, so that \<^verbatim>\<open>endDialog\<close> with reason cancelled is called
  for every frame of the inner stack, from the top frame down, and the inner stack is
  empty, and the hook \<^verbatim>\<open>onEndDialog\<close> is the last call of all.
\<close>

theorem endDialog_cancels_inner_stack_first:
  assumes "well_formed_frame (ComponentDialog i init ds) inst"
  shows "(reason \<noteq> cancelCalled \<longrightarrow>
            Dialog_endDialog (ComponentDialog i init ds) ctx inst reason
              = Inr (ctx\<lparr>trace := trace ctx @ [OnEndDialog i reason]\<rparr>, inst))
       \<and> (\<exists>evs inst'.
            Dialog_endDialog (ComponentDialog i init ds) ctx inst cancelCalled
              = Inr (ctx\<lparr>trace := trace ctx @ evs @ [OnEndDialog i cancelCalled]\<rparr>, inst')
          \<and> subseq (map (\<lambda>f. EndDialogCalled (instance_id f) cancelCalled) (rev (inner_frames inst))) evs
          \<and> instance_id inst' = instance_id inst
          \<and> inner_frames inst' = [])"
proof
  show "reason \<noteq> cancelCalled \<longrightarrow>
          Dialog_endDialog (ComponentDialog i init ds) ctx inst reason
            = Inr (ctx\<lparr>trace := trace ctx @ [OnEndDialog i reason]\<rparr>, inst)"
    by (simp add: onEndDialog_def log_event_def)
next
  from well_formed_component [OF assms] obtain st where
    st: "StateMap_get (instance_state inst) PERSISTED_DIALOG_STATE = Some st"
    and ws: "well_formed_stack ds (inner_frames inst)"
    by blast
  let ?inner = "\<lparr>dc_dialogs = ds, dc_context = ctx, stack = inner_frames inst,
                  userState = [], conversationState = []\<rparr>"
  have c: "createInnerDC ds ctx inst None None = Inr (?inner, put_dialogStack inst (inner_frames inst))"
    using createInnerDC_Some [OF st, of ds ctx None None] by simp
  from cancel_returns(2) [of ?inner] ws obtain dc' where k: "DialogContext_cancelAllDialogs ?inner = Inr dc'"
    by auto
  from cancel_effect(2) [of ?inner] k
  have "stack dc' = [] \<and> dc_dialogs dc' = dc_dialogs ?inner
     \<and> (\<exists>evs. dc_context dc' = (dc_context ?inner)\<lparr>trace := trace (dc_context ?inner) @ evs\<rparr>
            \<and> subseq (map (\<lambda>f. EndDialogCalled (instance_id f) cancelCalled) (rev (stack ?inner))) evs)"
    by blast
  then obtain evs where s: "stack dc' = []"
    and t: "dc_context dc' = ctx\<lparr>trace := trace ctx @ evs\<rparr>"
    and sub: "subseq (map (\<lambda>f. EndDialogCalled (instance_id f) cancelCalled) (rev (inner_frames inst))) evs"
    by (elim conjE exE) simp
  have "Dialog_endDialog (ComponentDialog i init ds) ctx inst cancelCalled
          = Inr (ctx\<lparr>trace := trace ctx @ evs @ [OnEndDialog i cancelCalled]\<rparr>,
                 put_dialogStack (put_dialogStack inst (inner_frames inst)) [])"
    using c k s t by (simp add: onEndDialog_def log_event_def)
  with sub show "\<exists>evs inst'.
            Dialog_endDialog (ComponentDialog i init ds) ctx inst cancelCalled
              = Inr (ctx\<lparr>trace := trace ctx @ evs @ [OnEndDialog i cancelCalled]\<rparr>, inst')
          \<and> subseq (map (\<lambda>f. EndDialogCalled (instance_id f) cancelCalled) (rev (inner_frames inst))) evs
          \<and> instance_id inst' = instance_id inst
          \<and> inner_frames inst' = []"
    by (intro exI [of _ evs] exI [of _ "put_dialogStack (put_dialogStack inst (inner_frames inst)) []"]) simp
qed

theorem endDialog_cancels_inner_stack_first_witness:
  "well_formed_frame shell shell_frame
   \<and> Dialog_endDialog shell turn0 shell_frame cancelCalled
       = Inr (turn0\<lparr>trace := [EndDialogCalled ''ComponentA'' cancelCalled,
                               EndDialogCalled ''PromptX'' cancelCalled,
                               OnEndDialog ''ComponentA'' cancelCalled,
                               OnEndDialog ''Shell'' cancelCalled]\<rparr>,
              DialogInstance ''Shell'' [(''dialogs'', VDialogState (Some []))])
   \<and> Dialog_endDialog shell turn0 shell_frame endCalled
       = Inr (turn0\<lparr>trace := [OnEndDialog ''Shell'' endCalled]\<rparr>, shell_frame)"
proof -
  have c: "Dialog_endDialog shell turn0 shell_frame cancelCalled
       = Inr (turn0\<lparr>trace := [EndDialogCalled ''ComponentA'' cancelCalled,
                               EndDialogCalled ''PromptX'' cancelCalled,
                               OnEndDialog ''ComponentA'' cancelCalled,
                               OnEndDialog ''Shell'' cancelCalled]\<rparr>,
              DialogInstance ''Shell'' [(''dialogs'', VDialogState (Some []))])"
    by (simp add: shell_def shell_frame_def DialogContext_cancelAllDialogs.simps eval_defs)
  have w: "well_formed_frame (ComponentDialog ''Shell'' (Some ''ComponentA'') [(''ComponentA'', componentA)]) shell_frame"
    using well_formed_shell by (simp add: shell_def)
  have "Dialog_endDialog shell turn0 shell_frame endCalled
       = Inr (turn0\<lparr>trace := trace turn0 @ [OnEndDialog ''Shell'' endCalled]\<rparr>, shell_frame)"
    using endDialog_cancels_inner_stack_first [OF w, of endCalled turn0, THEN conjunct1]
    by (simp add: shell_def)
  then have "Dialog_endDialog shell turn0 shell_frame endCalled
       = Inr (turn0\<lparr>trace := [OnEndDialog ''Shell'' endCalled]\<rparr>, shell_frame)"
    by (simp add: turn0_def)
  with c well_formed_shell show ?thesis by simp
qed

text \<open>
  Claim C4. \<^verbatim>\<open>resumeDialog\<close> on the active, well-formed frame of an \<^verbatim>\<open>ActivityPrompt\<close> or a
  \<^verbatim>\<open>ComponentDialog\<close> returns, whatever the reason and the result passed: it does what
  \<^verbatim>\<open>repromptDialog\<close> does on that frame (for a prompt, it sends the retry prompt, or the
  initial prompt when there is none), returns the waiting outcome, and leaves the same
  frames on the stack.
\<close>

theorem resumeDialog_reprompts_and_waits:
  assumes "activeDialog dc = Some inst" and "well_formed_frame d inst"
  shows "\<exists>ctx' inst'.
      Dialog_repromptDialog d (dc_context dc) inst = Inr (ctx', inst')
    \<and> Dialog_resumeDialog d dc reason res = Inr (set_activeDialog (dc\<lparr>dc_context := ctx'\<rparr>) inst', EndOfTurn)
    \<and> map instance_id (stack (set_activeDialog (dc\<lparr>dc_context := ctx'\<rparr>) inst')) = map instance_id (stack dc)
    \<and> (\<forall>i v r opt. d = ActivityPrompt i v r
           \<and> StateMap_get (instance_state inst) PERSISTED_OPTIONS = Some (VOptions opt) \<longrightarrow>
         inst' = inst
         \<and> ctx' = (if truthy (retryPrompt opt)
                   then sendActivity (dc_context dc) (the (retryPrompt opt)) InputHints_ExpectingInput
                   else if truthy (prompt opt)
                   then sendActivity (dc_context dc) (the (prompt opt)) InputHints_ExpectingInput
                   else dc_context dc))"
proof -
  from reprompt_returns(1) [of d inst "dc_context dc"] assms(2) obtain ctx' inst' where
    r: "Dialog_repromptDialog d (dc_context dc) inst = Inr (ctx', inst')" "instance_id inst' = instance_id inst"
    by auto
  have a: "activeDialog (dc\<lparr>dc_context := ctx'\<rparr>) = Some inst"
    using assms(1) by simp
  have m: "map instance_id (stack (set_activeDialog (dc\<lparr>dc_context := ctx'\<rparr>) inst')) = map instance_id (stack dc)"
    using map_id_set_activeDialog [OF a r(2)] by simp
  have res: "Dialog_resumeDialog d dc reason res = Inr (set_activeDialog (dc\<lparr>dc_context := ctx'\<rparr>) inst', EndOfTurn)"
  proof (cases d)
    case (ActivityPrompt i v rr)
    with r have "ActivityPrompt_repromptDialog (dc_context dc) inst = Inr ctx'" "inst' = inst"
      by (auto split: sum.splits)
    then show ?thesis
      using ActivityPrompt assms(1) set_activeDialog_same [OF a]
      by (simp add: ActivityPrompt_resumeDialog_def)
  next
    case (ComponentDialog i init ds)
    then show ?thesis
      using r assms(1) by (simp add: ComponentDialog_resumeDialog_def)
  qed
  have p: "\<forall>i v r opt. d = ActivityPrompt i v r
           \<and> StateMap_get (instance_state inst) PERSISTED_OPTIONS = Some (VOptions opt) \<longrightarrow>
         inst' = inst
         \<and> ctx' = (if truthy (retryPrompt opt)
                   then sendActivity (dc_context dc) (the (retryPrompt opt)) InputHints_ExpectingInput
                   else if truthy (prompt opt)
                   then sendActivity (dc_context dc) (the (prompt opt)) InputHints_ExpectingInput
                   else dc_context dc)"
    using r by (auto simp: ActivityPrompt_repromptDialog_def onPrompt_options split: sum.splits)
  from r res m p show ?thesis by blast
qed

theorem resumeDialog_reprompts_and_waits_witness:
  "activeDialog outer_dc = Some component_frame
   \<and> well_formed_frame componentA component_frame
   \<and> Dialog_resumeDialog componentA outer_dc cancelCalled (AString ''ignored'')
       = Inr (outer_dc\<lparr>dc_context := turn0\<lparr>responded := True,
                 sent := [(Text ''Please answer.'', ''expectingInput'')],
                 trace := [OnRepromptDialog ''ComponentA'']\<rparr>\<rparr>, EndOfTurn)"
proof -
  have a: "activeDialog outer_dc = Some component_frame"
    by (simp add: activeDialog_def outer_dc_def)
  have r: "Dialog_repromptDialog componentA (dc_context outer_dc) component_frame
       = Inr (turn0\<lparr>responded := True, sent := [(Text ''Please answer.'', ''expectingInput'')],
                     trace := [OnRepromptDialog ''ComponentA'']\<rparr>, component_frame)"
    by (simp add: DialogContext_repromptDialog.simps ActivityPrompt_repromptDialog_def onPrompt_def eval_defs)
  from resumeDialog_reprompts_and_waits [OF a well_formed_componentA, of cancelCalled "AString ''ignored''"]
  obtain ctx' inst' where
    "Dialog_repromptDialog componentA (dc_context outer_dc) component_frame = Inr (ctx', inst')"
    "Dialog_resumeDialog componentA outer_dc cancelCalled (AString ''ignored'')
       = Inr (set_activeDialog (outer_dc\<lparr>dc_context := ctx'\<rparr>) inst', EndOfTurn)"
    by blast
  with r have "Dialog_resumeDialog componentA outer_dc cancelCalled (AString ''ignored'')
       = Inr (set_activeDialog (outer_dc\<lparr>dc_context := turn0\<lparr>responded := True,
                 sent := [(Text ''Please answer.'', ''expectingInput'')],
                 trace := [OnRepromptDialog ''ComponentA'']\<rparr>\<rparr>) component_frame, EndOfTurn)"
    by simp
  then have "Dialog_resumeDialog componentA outer_dc cancelCalled (AString ''ignored'')
       = Inr (outer_dc\<lparr>dc_context := turn0\<lparr>responded := True,
                 sent := [(Text ''Please answer.'', ''expectingInput'')],
                 trace := [OnRepromptDialog ''ComponentA'']\<rparr>\<rparr>, EndOfTurn)"
    by (simp add: set_activeDialog_def outer_dc_def)
  with a well_formed_componentA show ?thesis by simp
qed

end
